theory Spec2Isabelle
  imports Complex_Main
begin

section \<open>Numbers of the source language\<close>

text \<open>
  The source is TypeScript: every number is an ECMAScript Number. The model keeps the
  three special values the code can produce (\<open>Infinity\<close>, \<open>-Infinity\<close>, \<open>NaN\<close>) and takes
  every other number as an exact real: the rounding and the overflow of IEEE-754
  doubles are not modelled, and zero has no sign (a division of a non-zero number by
  zero takes the sign of the numerator). The operators follow the ECMAScript rules for
  the special values.
\<close>

datatype jsnum = Fin real | PosInf | NegInf | NaN

instantiation jsnum :: "{uminus, plus, minus, times, inverse, ord}"
begin

fun uminus_jsnum :: "jsnum \<Rightarrow> jsnum" where
  "uminus_jsnum (Fin a) = Fin (- a)"
| "uminus_jsnum PosInf = NegInf"
| "uminus_jsnum NegInf = PosInf"
| "uminus_jsnum NaN = NaN"

fun plus_jsnum :: "jsnum \<Rightarrow> jsnum \<Rightarrow> jsnum" where
  "plus_jsnum (Fin a) (Fin b) = Fin (a + b)"
| "plus_jsnum NaN _ = NaN"
| "plus_jsnum _ NaN = NaN"
| "plus_jsnum PosInf NegInf = NaN"
| "plus_jsnum NegInf PosInf = NaN"
| "plus_jsnum PosInf _ = PosInf"
| "plus_jsnum _ PosInf = PosInf"
| "plus_jsnum NegInf _ = NegInf"
| "plus_jsnum _ NegInf = NegInf"

definition minus_jsnum :: "jsnum \<Rightarrow> jsnum \<Rightarrow> jsnum" where
  "minus_jsnum a b = a + (- b)"

fun times_jsnum :: "jsnum \<Rightarrow> jsnum \<Rightarrow> jsnum" where
  "times_jsnum (Fin a) (Fin b) = Fin (a * b)"
| "times_jsnum NaN _ = NaN"
| "times_jsnum _ NaN = NaN"
| "times_jsnum PosInf (Fin b) = (if b = 0 then NaN else if 0 < b then PosInf else NegInf)"
| "times_jsnum NegInf (Fin b) = (if b = 0 then NaN else if 0 < b then NegInf else PosInf)"
| "times_jsnum (Fin a) PosInf = (if a = 0 then NaN else if 0 < a then PosInf else NegInf)"
| "times_jsnum (Fin a) NegInf = (if a = 0 then NaN else if 0 < a then NegInf else PosInf)"
| "times_jsnum PosInf PosInf = PosInf"
| "times_jsnum NegInf NegInf = PosInf"
| "times_jsnum PosInf NegInf = NegInf"
| "times_jsnum NegInf PosInf = NegInf"

fun divide_jsnum :: "jsnum \<Rightarrow> jsnum \<Rightarrow> jsnum" where
  "divide_jsnum (Fin a) (Fin b) =
     (if b = 0 then (if a = 0 then NaN else if 0 < a then PosInf else NegInf)
      else Fin (a / b))"
| "divide_jsnum NaN _ = NaN"
| "divide_jsnum _ NaN = NaN"
| "divide_jsnum (Fin a) _ = Fin 0"
| "divide_jsnum PosInf (Fin b) = (if 0 \<le> b then PosInf else NegInf)"
| "divide_jsnum NegInf (Fin b) = (if 0 \<le> b then NegInf else PosInf)"
| "divide_jsnum _ _ = NaN"

definition inverse_jsnum :: "jsnum \<Rightarrow> jsnum" where
  "inverse_jsnum a = divide (Fin 1) a"

fun less_jsnum :: "jsnum \<Rightarrow> jsnum \<Rightarrow> bool" where
  "less_jsnum (Fin a) (Fin b) = (a < b)"
| "less_jsnum NaN _ = False"
| "less_jsnum _ NaN = False"
| "less_jsnum PosInf _ = False"
| "less_jsnum _ PosInf = True"
| "less_jsnum _ NegInf = False"
| "less_jsnum NegInf _ = True"

definition less_eq_jsnum :: "jsnum \<Rightarrow> jsnum \<Rightarrow> bool" where
  "less_eq_jsnum a b = (a < b \<or> (a = b \<and> a \<noteq> NaN))"

instance ..

end

text \<open>\<open>===\<close> on numbers: \<open>NaN\<close> equals nothing, itself included.\<close>

definition strict_eq :: "jsnum \<Rightarrow> jsnum \<Rightarrow> bool" where
  "strict_eq a b = (a = b \<and> a \<noteq> NaN)"

text \<open>A number in a condition: \<open>0\<close> and \<open>NaN\<close> are falsy, every other number is truthy.\<close>

definition truthy :: "jsnum \<Rightarrow> bool" where
  "truthy a = (a \<noteq> Fin 0 \<and> a \<noteq> NaN)"

text \<open>\<open>Math.min\<close> and \<open>Math.max\<close> of two arguments: \<open>NaN\<close> if either is \<open>NaN\<close>.\<close>

definition Math_min :: "jsnum \<Rightarrow> jsnum \<Rightarrow> jsnum" where
  "Math_min a b = (if a = NaN \<or> b = NaN then NaN else if b < a then b else a)"

definition Math_max :: "jsnum \<Rightarrow> jsnum \<Rightarrow> jsnum" where
  "Math_max a b = (if a = NaN \<or> b = NaN then NaN else if a < b then b else a)"

section \<open>Polygons and the bounding box\<close>

text \<open>
  A polygon is \<open>[number, number][]\<close>: a list of (longitude, latitude) pairs.
  \<open>degrees\<close> turns a list of real coordinate pairs into such a polygon: the polygons
  whose coordinates are all finite numbers are exactly the lists \<open>degrees pts\<close>.
\<close>

type_synonym point = "jsnum \<times> jsnum"
type_synonym polygon = "point list"

definition degrees :: "(real \<times> real) list \<Rightarrow> polygon" where
  "degrees pts = map (\<lambda>(x, y). (Fin x, Fin y)) pts"

record bbox =
  minLon :: jsnum
  maxLon :: jsnum
  minLat :: jsnum
  maxLat :: jsnum

text \<open>
  \<open>getBoundingBox\<close> (verification step): four accumulators start at the sentinels
  \<open>Infinity\<close> and \<open>-Infinity\<close>, and \<open>polygon.forEach\<close> folds every vertex into them.
  The source has no check of the polygon and no \<open>throw\<close>.
\<close>

definition getBoundingBox :: "polygon \<Rightarrow> bbox" where
  "getBoundingBox polygon =
     fold (\<lambda>(lon, lat) b.
             \<lparr> minLon = Math_min (minLon b) lon, maxLon = Math_max (maxLon b) lon,
               minLat = Math_min (minLat b) lat, maxLat = Math_max (maxLat b) lat \<rparr>)
          polygon
          \<lparr> minLon = PosInf, maxLon = NegInf, minLat = PosInf, maxLat = NegInf \<rparr>"

section \<open>The random source\<close>

text \<open>
  \<open>Math.random()\<close> returns a number that is at least 0 and less than 1. A \<open>draw\<close> is
  such a number; the random source is the sequence of the draws, \<open>r k\<close> being what
  the \<open>k\<close>-th call of \<open>Math.random()\<close> within one run returns (counted from 0).
\<close>

typedef draw = "{r::real. 0 \<le> r \<and> r < 1}"
  morphisms draw_val Draw
  by (rule exI [of _ 0]) simp

definition Math_random :: "(nat \<Rightarrow> draw) \<Rightarrow> nat \<Rightarrow> jsnum" where
  "Math_random r k = Fin (draw_val (r k))"

section \<open>Number formatting\<close>

text \<open>The decimal digits of a natural number.\<close>

function digits :: "nat \<Rightarrow> string" where
  "digits n =
     (if n < 10 then [''0123456789'' ! n]
      else digits (n div 10) @ [''0123456789'' ! (n mod 10)])"
  by pat_completeness auto
termination
  by (relation "measure (\<lambda>n. n)") auto

declare digits.simps [simp del]

text \<open>
  \<open>x.toFixed(1)\<close>, after the steps of ECMAScript's \<open>Number.prototype.toFixed\<close>: a number
  that is not finite is printed by name; otherwise the sign is split off and, below
  \<open>10^21\<close>, \<open>n\<close> is the integer nearest to ten times the magnitude (the larger one when
  two are equally near), printed with a point before its last digit. From \<open>10^21\<close> on
  the result is the shortest decimal that reads back as the same double, which exact
  reals cannot express: \<open>numberToString\<close> stands for it.
\<close>

definition toFixed1 :: "(real \<Rightarrow> string) \<Rightarrow> jsnum \<Rightarrow> string" where
  "toFixed1 numberToString x =
     (case x of
        NaN \<Rightarrow> ''NaN''
      | PosInf \<Rightarrow> ''Infinity''
      | NegInf \<Rightarrow> ''-Infinity''
      | Fin r \<Rightarrow>
          (if r < 0 then ''-'' else []) @
          (if 10 ^ 21 \<le> \<bar>r\<bar> then numberToString \<bar>r\<bar>
           else (let n = nat \<lfloor>\<bar>r\<bar> * 10 + 1 / 2\<rfloor>
                 in digits (n div 10) @ ''.'' @ digits (n mod 10))))"

section \<open>The verification step (rule-based anomalies)\<close>

datatype severity = High | Medium | Low

text \<open>\<open>interface AnomalyInfo\<close>.\<close>

record AnomalyInfo =
  id_i :: int
  severity_i :: severity
  type_i :: string
  description_i :: string
  location :: point

text \<open>
  Modelled from the spec: the type of \<open>carbonMetrics\<close> is declared in the drawing context,
  which is not among the sources. The spec names the three fields the verification step
  reads, \<open>carbonStocks\<close>, \<open>forestGrowth\<close> and \<open>area\<close>; they are numbers here.
\<close>

record CarbonMetrics =
  carbonStocks :: jsnum
  forestGrowth :: jsnum
  area :: jsnum

text \<open>
  The data of a \<open>GeoJsonLayer\<close>: its id and the features of its feature collection. The
  point features carry \<open>id\<close>, \<open>severity\<close>, \<open>type\<close> and \<open>description\<close>, the area features
  only \<open>id\<close> and \<open>severity\<close>. The accessors for colours, radii and picking are constants
  of the source and are left out.
\<close>

datatype geometry = Point point | Polygon "point list list"

record properties =
  prop_id :: int
  prop_severity :: severity
  prop_type :: "string option"
  prop_description :: "string option"

record feature =
  properties :: properties
  geometry :: geometry

record GeoJsonLayer =
  layer_id :: string
  features :: "feature list"

text \<open>
  What \<open>detectAnomalies\<close> reads: \<open>getDrawnArea\<close> of the drawing context (\<open>None\<close> when the
  context has no such function, \<open>Some None\<close> when it returns \<open>null\<close>), \<open>carbonMetrics\<close>
  (\<open>None\<close> for \<open>null\<close>), whether \<open>window.addAnomalyLayer\<close> is defined, the random source and
  the printing of large numbers.
\<close>

record env =
  getDrawnArea :: "polygon option option"
  carbonMetrics :: "CarbonMetrics option"
  window_addAnomalyLayer :: bool
  rnd :: "nat \<Rightarrow> draw"
  numberToString :: "real \<Rightarrow> string"

text \<open>
  What \<open>detectAnomalies\<close> writes: the \<open>anomalies\<close> state, \<open>anomalyLayersRef.current\<close>, and
  the calls it makes to \<open>window.addAnomalyLayer\<close>, in order.
\<close>

record component =
  anomalies :: "AnomalyInfo list"
  anomalyLayersRef :: "GeoJsonLayer list"
  addAnomalyLayer_calls :: "(string \<times> string \<times> nat list \<times> bool) list"

definition calculateForestGrowthPercentage :: "CarbonMetrics option \<Rightarrow> jsnum" where
  "calculateForestGrowthPercentage metrics =
     (case metrics of
        None \<Rightarrow> Fin 0
      | Some m \<Rightarrow>
          (let baseline2017 = carbonStocks m - forestGrowth m
           in if strict_eq baseline2017 (Fin 0) then Fin 0
              else (forestGrowth m / baseline2017) * Fin 100))"

text \<open>
  The centre both synthesizers compute inline: \<open>reduce\<close> sums the longitudes and the
  latitudes from 0, and each sum is divided by the number of vertices.
\<close>

definition centroid :: "polygon \<Rightarrow> point" where
  "centroid polygon =
     (fold (\<lambda>point sum. sum + fst point) polygon (Fin 0) / Fin (real (length polygon)),
      fold (\<lambda>point sum. sum + snd point) polygon (Fin 0) / Fin (real (length polygon)))"

text \<open>
  \<open>getRandomPointInPolygon\<close>: two calls of \<open>Math.random()\<close>, the \<open>k\<close>-th and the next one.
\<close>

definition getRandomPointInPolygon :: "(nat \<Rightarrow> draw) \<Rightarrow> nat \<Rightarrow> polygon \<Rightarrow> point" where
  "getRandomPointInPolygon r k drawnArea =
     (let bbox = getBoundingBox drawnArea;
          randomLon = minLon bbox + Math_random r k * (maxLon bbox - minLon bbox);
          randomLat = minLat bbox + Math_random r (k + 1) * (maxLat bbox - minLat bbox)
      in (randomLon, randomLat))"

text \<open>
  The four records \<open>detectAnomalies\<close> can push, each as a function of what varies in it:
  the growth anomaly of the percentage and the centre, the three demonstration anomalies
  of their point.
\<close>

definition growthAnomaly :: "(real \<Rightarrow> string) \<Rightarrow> jsnum \<Rightarrow> point \<Rightarrow> AnomalyInfo" where
  "growthAnomaly toString forestGrowthPercentage center =
     \<lparr> id_i = 1, severity_i = High, type_i = ''Unusual Carbon Growth'',
       description_i = ''Detected '' @ toFixed1 toString forestGrowthPercentage @
         ''% growth in carbon stocks between 2015-2020, which exceeds expected natural sequestration rates. This may indicate measurement error or unreported activities.'',
       location = center \<rparr>"

definition boundaryAnomaly :: "point \<Rightarrow> AnomalyInfo" where
  "boundaryAnomaly boundaryPoint =
     \<lparr> id_i = 2, severity_i = Medium, type_i = ''Boundary Inconsistency'',
       description_i = ''Project boundary overlaps with a protected area. Verify boundary coordinates and adjust if necessary.'',
       location = boundaryPoint \<rparr>"

definition lulcAnomaly :: "point \<Rightarrow> AnomalyInfo" where
  "lulcAnomaly lulcPoint =
     \<lparr> id_i = 3, severity_i = Medium, type_i = ''LULC Classification Error'',
       description_i = ''Land use classification appears inconsistent with satellite imagery. Area classified as forest in 2020 appears as non-forest in high-resolution imagery.'',
       location = lulcPoint \<rparr>"

definition deforestationAnomaly :: "point \<Rightarrow> AnomalyInfo" where
  "deforestationAnomaly deforestationPoint =
     \<lparr> id_i = 4, severity_i = High, type_i = ''Potential Deforestation'',
       description_i = ''Small area of forest loss detected in the northern section of the project area. Approximately 0.5 hectares affected.'',
       location = deforestationPoint \<rparr>"

text \<open>
  The list \<open>detectedAnomalies\<close> at the call of \<open>setAnomalies\<close>. The three calls of
  \<open>getRandomPointInPolygon\<close> take the draws 0 to 5 of the run.
\<close>

definition detectedAnomalies :: "env \<Rightarrow> polygon \<Rightarrow> CarbonMetrics \<Rightarrow> AnomalyInfo list" where
  "detectedAnomalies e drawnArea m =
     (let forestGrowthPercentage = calculateForestGrowthPercentage (carbonMetrics e);
          hasHighGrowthAnomaly = (Fin 20 < forestGrowthPercentage);
          (centerLon, centerLat) = centroid drawnArea
      in (if hasHighGrowthAnomaly
          then [growthAnomaly (numberToString e) forestGrowthPercentage (centerLon, centerLat)]
          else []) @
         (if truthy (area m)
          then [boundaryAnomaly (getRandomPointInPolygon (rnd e) 0 drawnArea),
                lulcAnomaly (getRandomPointInPolygon (rnd e) 2 drawnArea),
                deforestationAnomaly (getRandomPointInPolygon (rnd e) 4 drawnArea)]
          else []))"

definition anomalyPointsLayer :: "AnomalyInfo list \<Rightarrow> GeoJsonLayer" where
  "anomalyPointsLayer detected =
     \<lparr> layer_id = ''anomaly-points'',
       features = map (\<lambda>anomaly.
         \<lparr> properties = \<lparr> prop_id = id_i anomaly, prop_severity = severity_i anomaly,
                          prop_type = Some (type_i anomaly),
                          prop_description = Some (description_i anomaly) \<rparr>,
           geometry = Point (location anomaly) \<rparr>) detected \<rparr>"

definition anomalyAreasLayer :: "AnomalyInfo list \<Rightarrow> GeoJsonLayer" where
  "anomalyAreasLayer detected =
     \<lparr> layer_id = ''anomaly-areas'',
       features = map (\<lambda>anomaly.
         (let lon = fst (location anomaly); lat = snd (location anomaly);
              offset = Fin 0.005
          in \<lparr> properties = \<lparr> prop_id = id_i anomaly, prop_severity = severity_i anomaly,
                               prop_type = None, prop_description = None \<rparr>,
                geometry = Polygon [[(lon - offset, lat - offset),
                                     (lon + offset, lat - offset),
                                     (lon + offset, lat + offset),
                                     (lon - offset, lat + offset),
                                     (lon - offset, lat - offset)]] \<rparr>)) detected \<rparr>"

text \<open>
  \<open>detectAnomalies\<close>. An array is truthy even when it is empty, so \<open>!drawnArea\<close> holds
  only for \<open>null\<close>. The function returns early, touching nothing, when there is no
  polygon or no metrics; otherwise it sets the \<open>anomalies\<close> state and, when the list is
  not empty, stores the two layers and registers them if the registry is there.
\<close>

definition detectAnomalies :: "env \<Rightarrow> component \<Rightarrow> component" where
  "detectAnomalies e s =
     (case (case getDrawnArea e of None \<Rightarrow> None | Some returned \<Rightarrow> returned) of
        None \<Rightarrow> s
      | Some drawnArea \<Rightarrow>
          (case carbonMetrics e of
             None \<Rightarrow> s
           | Some m \<Rightarrow>
               (let detected = detectedAnomalies e drawnArea m;
                    s1 = s\<lparr>anomalies := detected\<rparr>
                in if 0 < length detected then
                     s1\<lparr>anomalyLayersRef := [anomalyAreasLayer detected, anomalyPointsLayer detected],
                        addAnomalyLayer_calls := addAnomalyLayer_calls s1 @
                          (if window_addAnomalyLayer e then
                             [(''anomaly-areas'', ''Anomaly Areas'', [255, 0, 0], True),
                              (''anomaly-points'', ''Anomaly Points'', [255, 0, 0], True)]
                           else [])\<rparr>
                   else s1)))"

section \<open>The anomaly layer module (random anomalies)\<close>

text \<open>\<open>interface AnomalyPoint\<close>; \<open>radius\<close> is an optional field.\<close>

record AnomalyPoint =
  id_p :: int
  position :: point
  severity_p :: severity
  type_p :: string
  description_p :: string
  radius :: "jsnum option"

definition anomalyTypes :: "(string \<times> string) list" where
  "anomalyTypes =
     [(''Deforestation'', ''Potential unauthorized clearing detected''),
      (''Carbon Stock Inconsistency'', ''Reported vs measured stock discrepancy''),
      (''Boundary Violation'', ''Project boundary overlap with restricted area''),
      (''Degradation'', ''Forest degradation above expected threshold''),
      (''Reporting Error'', ''Measurement data inconsistent with satellite imagery''),
      (''Conversion Risk'', ''High risk of land-use conversion detected''),
      (''Illegal Activity'', ''Signs of unauthorized activity detected'')]"

definition severityLevels :: "severity list" where
  "severityLevels =
     [High, High,
      Medium, Medium, Medium, Medium, Medium,
      Low, Low, Low]"

definition scale :: jsnum where
  "scale = Fin 0.02"

fun radiusMap :: "severity \<Rightarrow> jsnum" where
  "radiusMap High = Fin 300"
| "radiusMap Medium = Fin 200"
| "radiusMap Low = Fin 150"

text \<open>
  The body of the loop of \<open>generateAnomaliesAroundPoint\<close>: the record that iteration \<open>i\<close>
  pushes. Each iteration calls \<open>Math.random()\<close> four times, in the order longitude
  offset, latitude offset, type index, severity index, so iteration \<open>i\<close> gets the draws
  \<open>4i\<close> to \<open>4i + 3\<close>. Both indices are \<open>Math.floor\<close> of a draw times the length of the
  array, hence inside the array (lemmas \<open>typeIndex_in_range\<close> and
  \<open>severityIndex_in_range\<close>).
\<close>

definition pushed :: "(nat \<Rightarrow> draw) \<Rightarrow> point \<Rightarrow> nat \<Rightarrow> AnomalyPoint" where
  "pushed r center i =
     (let centerLng = fst center; centerLat = snd center;
          lngOffset = (Math_random r (4 * i) - Fin 0.5) * scale * Fin 2;
          latOffset = (Math_random r (4 * i + 1) - Fin 0.5) * scale * Fin 2;
          typeIndex = nat \<lfloor>draw_val (r (4 * i + 2)) * real (length anomalyTypes)\<rfloor>;
          severityIndex = nat \<lfloor>draw_val (r (4 * i + 3)) * real (length severityLevels)\<rfloor>;
          severity = severityLevels ! severityIndex
      in \<lparr> id_p = int i + 1,
           position = (centerLng + lngOffset, centerLat + latOffset),
           severity_p = severity,
           type_p = fst (anomalyTypes ! typeIndex),
           description_p = snd (anomalyTypes ! typeIndex),
           radius = Some (radiusMap severity) \<rparr>)"

text \<open>
  The loop \<open>for (let i = 0; i < count; i++)\<close>; \<open>acc\<close> is the array \<open>anomalies\<close> as
  built so far. \<open>count\<close> is an integer here (the source's type is \<open>number\<close>).
\<close>

function generateAnomaliesAroundPoint_loop ::
  "(nat \<Rightarrow> draw) \<Rightarrow> point \<Rightarrow> int \<Rightarrow> nat \<Rightarrow> AnomalyPoint list \<Rightarrow> AnomalyPoint list" where
  "generateAnomaliesAroundPoint_loop r center count i acc =
     (if int i < count
      then generateAnomaliesAroundPoint_loop r center count (i + 1) (acc @ [pushed r center i])
      else acc)"
  by pat_completeness auto
termination
  by (relation "measure (\<lambda>(r, center, count, i, acc). nat (count - int i))") auto

declare generateAnomaliesAroundPoint_loop.simps [simp del]

definition generateAnomaliesAroundPoint ::
  "(nat \<Rightarrow> draw) \<Rightarrow> point \<Rightarrow> int \<Rightarrow> AnomalyPoint list" where
  "generateAnomaliesAroundPoint r center count =
     generateAnomaliesAroundPoint_loop r center count 0 []"

text \<open>
  \<open>generateDummyAnomalies\<close>: \<open>centerPolygon\<close> is a polygon or \<open>null\<close>; \<open>count\<close> defaults
  to 5 when the argument is left out.
\<close>

definition generateDummyAnomalies ::
  "(nat \<Rightarrow> draw) \<Rightarrow> polygon option \<Rightarrow> int option \<Rightarrow> AnomalyPoint list" where
  "generateDummyAnomalies r centerPolygon count_arg =
     (let count = (case count_arg of None \<Rightarrow> 5 | Some c \<Rightarrow> c);
          defaultCenter = (Fin 101.4383, Fin 0.5104)
      in case centerPolygon of
           None \<Rightarrow> generateAnomaliesAroundPoint r defaultCenter count
         | Some polygon \<Rightarrow>
             if length polygon < 3 then generateAnomaliesAroundPoint r defaultCenter count
             else (let centerLng = fold (\<lambda>point sum. sum + fst point) polygon (Fin 0)
                                     / Fin (real (length polygon));
                       centerLat = fold (\<lambda>point sum. sum + snd point) polygon (Fin 0)
                                     / Fin (real (length polygon))
                   in generateAnomaliesAroundPoint r (centerLng, centerLat) count))"

section \<open>Predicates of the statements and example inputs\<close>

text \<open>
  A point lies inside a bounding box when each coordinate is between the two bounds of
  its axis, in the order of the numbers of the source (nothing compares with \<open>NaN\<close>).
\<close>

definition inside :: "bbox \<Rightarrow> point \<Rightarrow> bool" where
  "inside b p =
     (minLon b \<le> fst p \<and> fst p \<le> maxLon b \<and> minLat b \<le> snd p \<and> snd p \<le> maxLat b)"


text \<open>
  Inputs for the examples: the square of the spec, a random source that cycles through
  the eighths \<open>0, 1/8, ..., 7/8\<close> and one that walks the sixteenths in steps of seven
  (\<open>0, 7/16, 14/16, 5/16, ...\<close>), an environment with the square drawn and the registry
  present, and the state of the component before the first run (\<open>useState([])\<close>,
  \<open>useRef([])\<close>, no call made).
\<close>

definition square :: "(real \<times> real) list" where
  "square = [(0, 0), (2, 0), (2, 2), (0, 2)]"

definition eighths :: "nat \<Rightarrow> draw" where
  "eighths k = Draw (real (k mod 8) / 8)"

definition strides :: "nat \<Rightarrow> draw" where
  "strides k = Draw (real ((7 * k) mod 16) / 16)"

definition square_env :: "CarbonMetrics \<Rightarrow> env" where
  "square_env m =
     \<lparr> getDrawnArea = Some (Some (degrees square)), carbonMetrics = Some m,
       window_addAnomalyLayer = True, rnd = eighths, numberToString = (\<lambda>x. []) \<rparr>"

definition initial :: component where
  "initial = \<lparr> anomalies = [], anomalyLayersRef = [], addAnomalyLayer_calls = [] \<rparr>"


definition low_growth :: CarbonMetrics where
  "low_growth = \<lparr> carbonStocks = Fin 100, forestGrowth = Fin 10, area = Fin 5 \<rparr>"

section \<open>Facts about the numbers and the geometry\<close>

lemma draw_val_bounds: "0 \<le> draw_val d \<and> draw_val d < 1"
  using draw_val [of d] by simp

lemma Math_min_Fin [simp]: "Math_min (Fin a) (Fin b) = Fin (min a b)"
  by (simp add: Math_min_def min_def)

lemma Math_max_Fin [simp]: "Math_max (Fin a) (Fin b) = Fin (max a b)"
  by (simp add: Math_max_def max_def)

text \<open>On finite coordinates the fold of \<open>getBoundingBox\<close> is a fold of \<open>min\<close> and \<open>max\<close>.\<close>

lemma bbox_fold_degrees:
  "fold (\<lambda>(lon, lat) b.
             \<lparr> minLon = Math_min (minLon b) lon, maxLon = Math_max (maxLon b) lon,
               minLat = Math_min (minLat b) lat, maxLat = Math_max (maxLat b) lat \<rparr>)
        (degrees pts)
        \<lparr> minLon = Fin a, maxLon = Fin b, minLat = Fin c, maxLat = Fin d \<rparr> =
   \<lparr> minLon = Fin (fold min (map fst pts) a), maxLon = Fin (fold max (map fst pts) b),
     minLat = Fin (fold min (map snd pts) c), maxLat = Fin (fold max (map snd pts) d) \<rparr>"
  by (induction pts arbitrary: a b c d) (auto simp: degrees_def min.commute max.commute)

lemma getBoundingBox_degrees:
  assumes "pts \<noteq> []"
  shows "getBoundingBox (degrees pts) =
    \<lparr> minLon = Fin (Min (fst ` set pts)), maxLon = Fin (Max (fst ` set pts)),
      minLat = Fin (Min (snd ` set pts)), maxLat = Fin (Max (snd ` set pts)) \<rparr>"
proof -
  from assms obtain p ps where pts: "pts = p # ps" by (cases pts) auto
  obtain x y where p: "p = (x, y)" by (cases p)
  have "getBoundingBox (degrees pts) =
      \<lparr> minLon = Fin (fold min (map fst ps) x), maxLon = Fin (fold max (map fst ps) x),
        minLat = Fin (fold min (map snd ps) y), maxLat = Fin (fold max (map snd ps) y) \<rparr>"
    using bbox_fold_degrees [of ps x x y y]
    by (simp add: getBoundingBox_def pts p degrees_def Math_min_def Math_max_def)
  moreover have "fold min (map fst ps) x = Min (fst ` set pts)"
    using Min.set_eq_fold [of x "map fst ps"] by (simp add: pts p)
  moreover have "fold max (map fst ps) x = Max (fst ` set pts)"
    using Max.set_eq_fold [of x "map fst ps"] by (simp add: pts p)
  moreover have "fold min (map snd ps) y = Min (snd ` set pts)"
    using Min.set_eq_fold [of y "map snd ps"] by (simp add: pts p)
  moreover have "fold max (map snd ps) y = Max (snd ` set pts)"
    using Max.set_eq_fold [of y "map snd ps"] by (simp add: pts p)
  ultimately show ?thesis by simp
qed

section \<open>The bounding box (claim C5)\<close>

text \<open>
  Claim C5 asks that \<open>boundingBox\<close> of an empty sequence of vertices fails with an
  \<open>InvalidGeometry\<close> error instead of returning sentinel infinities. \<open>getBoundingBox\<close>
  has no failure: on the empty polygon the fold does not run, and the result is the four
  sentinels it started from.
\<close>

theorem getBoundingBox_empty_is_sentinels:
  "getBoundingBox [] =
     \<lparr> minLon = PosInf, maxLon = NegInf, minLat = PosInf, maxLat = NegInf \<rparr>"
  by (simp add: getBoundingBox_def)

text \<open>
  Claim C5, amended: \<open>getBoundingBox\<close> of the empty polygon returns the sentinels
  (\<open>Infinity\<close> for the minima, \<open>-Infinity\<close> for the maxima) and no error; for every
  non-empty polygon with finite coordinates it returns the least and the greatest
  longitude and the least and the greatest latitude of the vertices, that is the
  smallest axis-aligned rectangle that covers them all.
\<close>

theorem getBoundingBox_minimal_rectangle:
  "getBoundingBox [] =
     \<lparr> minLon = PosInf, maxLon = NegInf, minLat = PosInf, maxLat = NegInf \<rparr> \<and>
   (pts \<noteq> [] \<longrightarrow>
      getBoundingBox (degrees pts) =
        \<lparr> minLon = Fin (Min (fst ` set pts)), maxLon = Fin (Max (fst ` set pts)),
          minLat = Fin (Min (snd ` set pts)), maxLat = Fin (Max (snd ` set pts)) \<rparr>)"
  by (simp add: getBoundingBox_degrees) (simp add: getBoundingBox_def)

text \<open>The spec's example: the bounding box of the square with corners (0,0) and (2,2).\<close>

theorem getBoundingBox_minimal_rectangle_witness:
  "getBoundingBox (degrees [(0, 0), (2, 0), (2, 2), (0, 2)]) =
     \<lparr> minLon = Fin 0, maxLon = Fin 2, minLat = Fin 0, maxLat = Fin 2 \<rparr>"
  using getBoundingBox_minimal_rectangle [of "[(0, 0), (2, 0), (2, 2), (0, 2)]"] by simp

section \<open>Facts about the verification step\<close>

lemma Fin_le [simp]: "(Fin a \<le> Fin b) = (a \<le> b)"
  by (auto simp: less_eq_jsnum_def)

lemma Fin_minus [simp]: "Fin a - Fin b = Fin (a - b)"
  by (simp add: minus_jsnum_def)

lemma draw_val_eighths [simp]: "draw_val (eighths k) = real (k mod 8) / 8"
  by (simp add: eighths_def Draw_inverse)

lemma record_fields [simp]:
  "id_i (growthAnomaly f pct c) = 1" "id_i (boundaryAnomaly p) = 2"
  "id_i (lulcAnomaly p) = 3" "id_i (deforestationAnomaly p) = 4"
  "severity_i (growthAnomaly f pct c) = High" "severity_i (boundaryAnomaly p) = Medium"
  "severity_i (lulcAnomaly p) = Medium" "severity_i (deforestationAnomaly p) = High"
  "location (growthAnomaly f pct c) = c" "location (boundaryAnomaly p) = p"
  "location (lulcAnomaly p) = p" "location (deforestationAnomaly p) = p"
  by (simp_all add: growthAnomaly_def boundaryAnomaly_def lulcAnomaly_def deforestationAnomaly_def)

lemma record_types [simp]:
  "type_i (growthAnomaly f pct c) = ''Unusual Carbon Growth''"
  "type_i (boundaryAnomaly p) = ''Boundary Inconsistency''"
  "type_i (lulcAnomaly p) = ''LULC Classification Error''"
  "type_i (deforestationAnomaly p) = ''Potential Deforestation''"
  by (simp_all add: growthAnomaly_def boundaryAnomaly_def lulcAnomaly_def deforestationAnomaly_def)

lemma detectedAnomalies_eq:
  "detectedAnomalies e drawnArea m =
     (if Fin 20 < calculateForestGrowthPercentage (carbonMetrics e)
      then [growthAnomaly (numberToString e) (calculateForestGrowthPercentage (carbonMetrics e))
              (centroid drawnArea)]
      else []) @
     (if truthy (area m)
      then [boundaryAnomaly (getRandomPointInPolygon (rnd e) 0 drawnArea),
            lulcAnomaly (getRandomPointInPolygon (rnd e) 2 drawnArea),
            deforestationAnomaly (getRandomPointInPolygon (rnd e) 4 drawnArea)]
      else [])"
  by (simp add: detectedAnomalies_def Let_def split: prod.split)

lemma anomalies_detectAnomalies:
  assumes "getDrawnArea e = Some (Some drawnArea)" and "carbonMetrics e = Some m"
  shows "anomalies (detectAnomalies e s) = detectedAnomalies e drawnArea m"
  using assms by (simp add: detectAnomalies_def Let_def)

lemma layers_detectAnomalies:
  assumes "getDrawnArea e = Some (Some drawnArea)" and "carbonMetrics e = Some m"
    and "detectedAnomalies e drawnArea m \<noteq> []"
  shows "anomalyLayersRef (detectAnomalies e s) =
    [anomalyAreasLayer (detectedAnomalies e drawnArea m),
     anomalyPointsLayer (detectedAnomalies e drawnArea m)]"
  using assms by (simp add: detectAnomalies_def Let_def)




lemma between: 
  fixes lo hi d :: real
  assumes "lo \<le> hi" "0 \<le> d" "d < 1"
  shows "lo \<le> lo + d * (hi - lo) \<and> lo + d * (hi - lo) \<le> hi"
proof -
  have "0 \<le> d * (hi - lo)" using assms by simp
  moreover have "d * (hi - lo) \<le> 1 * (hi - lo)" using assms by (intro mult_right_mono) simp_all
  ultimately show ?thesis by simp
qed

lemma getRandomPointInPolygon_degrees:
  assumes "pts \<noteq> []"
  shows "getRandomPointInPolygon r k (degrees pts) =
     (Fin (Min (fst ` set pts) + draw_val (r k) * (Max (fst ` set pts) - Min (fst ` set pts))),
      Fin (Min (snd ` set pts) + draw_val (r (k + 1)) * (Max (snd ` set pts) - Min (snd ` set pts))))"
  by (simp add: getRandomPointInPolygon_def getBoundingBox_degrees [OF assms] Math_random_def Let_def)

lemma getRandomPointInPolygon_inside:
  assumes "pts \<noteq> []"
  shows "inside (getBoundingBox (degrees pts)) (getRandomPointInPolygon r k (degrees pts))"
proof -
  from assms obtain p where p: "p \<in> set pts" by (cases pts) auto
  have "Min (fst ` set pts) \<le> fst p" "fst p \<le> Max (fst ` set pts)" using p by simp_all
  then have lon: "Min (fst ` set pts) \<le> Max (fst ` set pts)" by linarith
  have "Min (snd ` set pts) \<le> snd p" "snd p \<le> Max (snd ` set pts)" using p by simp_all
  then have lat: "Min (snd ` set pts) \<le> Max (snd ` set pts)" by linarith
  show ?thesis
    using between [OF lon, of "draw_val (r k)"] between [OF lat, of "draw_val (r (k + 1))"]
      draw_val_bounds [of "r k"] draw_val_bounds [of "r (k + 1)"]
    by (simp add: inside_def getRandomPointInPolygon_degrees [OF assms]
        getBoundingBox_degrees [OF assms])
qed


lemma square_bounds [simp]:
  "Min (fst ` set square) = 0" "Max (fst ` set square) = 2"
  "Min (snd ` set square) = 0" "Max (snd ` set square) = 2"
  by (simp_all add: square_def)

lemma pct_low_growth: "calculateForestGrowthPercentage (Some low_growth) = Fin (100 / 9)"
  by (simp add: calculateForestGrowthPercentage_def low_growth_def strict_eq_def)




section \<open>The growth rule (claim C1)\<close>



section \<open>The three demonstration anomalies (claim C3)\<close>

text \<open>
  Claim C3. When a polygon and the metrics are there and \<open>area\<close> is truthy, the anomalies
  are the growth anomaly, if the growth rule fires (id 1), followed by exactly three
  records with ids 2, 3, 4, severities medium, medium, high and the types boundary, LULC
  and deforestation in this order, whatever the values of the metrics; so the ids are
  2, 3, 4 alone when the growth rule does not fire. When the polygon is not empty and its
  coordinates are finite, the location of each of the three lies inside its bounding box.
\<close>

theorem fixed_anomalies:
  assumes "getDrawnArea e = Some (Some drawnArea)" and "carbonMetrics e = Some m"
    and "truthy (area m)"
  shows "\<exists>growth fixed.
      anomalies (detectAnomalies e s) = growth @ fixed \<and>
      map id_i growth = (if Fin 20 < calculateForestGrowthPercentage (Some m) then [1] else []) \<and>
      map type_i growth =
        (if Fin 20 < calculateForestGrowthPercentage (Some m) then [''Unusual Carbon Growth''] else []) \<and>
      map id_i fixed = [2, 3, 4] \<and>
      map severity_i fixed = [Medium, Medium, High] \<and>
      map type_i fixed =
        [''Boundary Inconsistency'', ''LULC Classification Error'', ''Potential Deforestation''] \<and>
      (\<forall>pts. drawnArea = degrees pts \<and> pts \<noteq> [] \<longrightarrow>
         (\<forall>a \<in> set fixed. inside (getBoundingBox drawnArea) (location a)))"
proof -
  let ?growth = "if Fin 20 < calculateForestGrowthPercentage (Some m)
      then [growthAnomaly (numberToString e) (calculateForestGrowthPercentage (Some m))
              (centroid drawnArea)]
      else []"
  let ?fixed = "[boundaryAnomaly (getRandomPointInPolygon (rnd e) 0 drawnArea),
            lulcAnomaly (getRandomPointInPolygon (rnd e) 2 drawnArea),
            deforestationAnomaly (getRandomPointInPolygon (rnd e) 4 drawnArea)]"
  have A: "anomalies (detectAnomalies e s) = ?growth @ ?fixed"
    using assms by (simp add: anomalies_detectAnomalies detectedAnomalies_eq)
  have inside: "\<forall>pts. drawnArea = degrees pts \<and> pts \<noteq> [] \<longrightarrow>
      (\<forall>a \<in> set ?fixed. inside (getBoundingBox drawnArea) (location a))"
    by (simp add: getRandomPointInPolygon_inside)
  show ?thesis
    apply (rule exI [of _ ?growth])
    apply (rule exI [of _ ?fixed])
    apply (intro conjI)
          apply (rule A)
         apply simp
        apply simp
       apply simp
      apply simp
     apply simp
    apply (rule inside)
    done
qed

text \<open>
  On the square with a growth of a ninth the ids are 2, 3, 4, and the draws
  \<open>0, 1/8, ..., 5/8\<close> place the three points inside the square.
\<close>

theorem fixed_anomalies_witness:
  "getDrawnArea (square_env low_growth) = Some (Some (degrees square)) \<and>
   carbonMetrics (square_env low_growth) = Some low_growth \<and>
   truthy (area low_growth) \<and>
   map id_i (anomalies (detectAnomalies (square_env low_growth) initial)) = [2, 3, 4] \<and>
   map location (anomalies (detectAnomalies (square_env low_growth) initial)) =
     [(Fin 0, Fin (1 / 4)), (Fin (1 / 2), Fin (3 / 4)), (Fin 1, Fin (5 / 4))]"
proof -
  let ?e = "square_env low_growth"
  have h1: "getDrawnArea ?e = Some (Some (degrees square))" by (simp add: square_env_def)
  have h2: "carbonMetrics ?e = Some low_growth" by (simp add: square_env_def)
  have h3: "truthy (area low_growth)" by (simp add: low_growth_def truthy_def)
  have ne: "square \<noteq> []" by (simp add: square_def)
  from fixed_anomalies [OF h1 h2 h3, of initial]
  have ids: "map id_i (anomalies (detectAnomalies ?e initial)) = [2, 3, 4]"
    by (auto simp: pct_low_growth)
  have "map location (anomalies (detectAnomalies ?e initial)) =
     [(Fin 0, Fin (1 / 4)), (Fin (1 / 2), Fin (3 / 4)), (Fin 1, Fin (5 / 4))]"
    using h3 by (simp add: anomalies_detectAnomalies [OF h1 h2] detectedAnomalies_eq h2
        pct_low_growth getRandomPointInPolygon_degrees [OF ne]) (simp add: square_env_def)
  with h1 h2 h3 ids show ?thesis by simp
qed

section \<open>Missing and empty input (claim C4)\<close>

text \<open>
  Without a polygon (\<open>getDrawnArea\<close> is missing or returns \<open>null\<close>) or without metrics,
  \<open>detectAnomalies\<close> returns at once: nothing is set, stored or registered.
\<close>

lemma detectAnomalies_absent:
  assumes "getDrawnArea e = None \<or> getDrawnArea e = Some None \<or> carbonMetrics e = None"
  shows "detectAnomalies e s = s"
  using assms by (auto simp: detectAnomalies_def split: option.splits)

lemma sentinel_point: "PosInf + Math_random r k * (NegInf - PosInf) = NaN"
proof -
  have "0 \<le> draw_val (r k)" using draw_val_bounds by simp
  then show ?thesis
    by (cases "draw_val (r k) = 0") (simp_all add: Math_random_def minus_jsnum_def)
qed

lemma getRandomPointInPolygon_empty: "getRandomPointInPolygon r k [] = (NaN, NaN)"
  by (simp add: getRandomPointInPolygon_def getBoundingBox_def Let_def sentinel_point)

text \<open>
  Claim C4 says that an empty polygon gives an empty result as well. It does not: the
  empty array is truthy and passes the guard. Run from the initial state on the empty
  polygon, with metrics whose \<open>area\<close> is truthy, \<open>detectAnomalies\<close> sets the three
  demonstration anomalies, each at the location (\<open>NaN\<close>, \<open>NaN\<close>), stores both layers
  and registers both.
\<close>

theorem detectAnomalies_empty_polygon:
  "map (\<lambda>a. (id_i a, location a))
     (anomalies (detectAnomalies ((square_env low_growth)\<lparr>getDrawnArea := Some (Some [])\<rparr>) initial)) =
     [(2, (NaN, NaN)), (3, (NaN, NaN)), (4, (NaN, NaN))] \<and>
   map layer_id
     (anomalyLayersRef (detectAnomalies ((square_env low_growth)\<lparr>getDrawnArea := Some (Some [])\<rparr>) initial)) =
     [''anomaly-areas'', ''anomaly-points''] \<and>
   map fst
     (addAnomalyLayer_calls (detectAnomalies ((square_env low_growth)\<lparr>getDrawnArea := Some (Some [])\<rparr>) initial)) =
     [''anomaly-areas'', ''anomaly-points'']"
proof -
  let ?e = "(square_env low_growth)\<lparr>getDrawnArea := Some (Some [])\<rparr>"
  have h1: "getDrawnArea ?e = Some (Some [])" by simp
  have h2: "carbonMetrics ?e = Some low_growth" by (simp add: square_env_def)
  have t: "truthy (area low_growth)" by (simp add: low_growth_def truthy_def)
  have D: "detectedAnomalies ?e [] low_growth =
      [boundaryAnomaly (NaN, NaN), lulcAnomaly (NaN, NaN), deforestationAnomaly (NaN, NaN)]"
    by (simp add: detectedAnomalies_eq h2 pct_low_growth t getRandomPointInPolygon_empty)
  have w: "window_addAnomalyLayer ?e" by (simp add: square_env_def)
  have 1: "map (\<lambda>a. (id_i a, location a)) (anomalies (detectAnomalies ?e initial)) =
     [(2, (NaN, NaN)), (3, (NaN, NaN)), (4, (NaN, NaN))]"
    by (simp add: anomalies_detectAnomalies [OF h1 h2] D)
  have 2: "map layer_id (anomalyLayersRef (detectAnomalies ?e initial)) =
     [''anomaly-areas'', ''anomaly-points'']"
    by (simp add: layers_detectAnomalies [OF h1 h2] D anomalyAreasLayer_def anomalyPointsLayer_def)
  have 3: "map fst (addAnomalyLayer_calls (detectAnomalies ?e initial)) =
     [''anomaly-areas'', ''anomaly-points'']"
    using w by (simp add: detectAnomalies_def h2 D Let_def initial_def)
  from 1 2 3 show ?thesis by (intro conjI)
qed

section \<open>A run that detects nothing (claim C10)\<close>

text \<open>
  Claim C10. When a polygon and the metrics are there, the growth percentage does not
  exceed 20 and \<open>area\<close> is falsy, \<open>detectAnomalies\<close> sets the anomalies to the empty list
  and does nothing else: the stored layers are the ones from before, and no call to
  \<open>window.addAnomalyLayer\<close> is added.
\<close>

theorem detectAnomalies_nothing_detected:
  assumes "getDrawnArea e = Some (Some drawnArea)" and "carbonMetrics e = Some m"
    and "\<not> Fin 20 < calculateForestGrowthPercentage (Some m)" and "\<not> truthy (area m)"
  shows "detectAnomalies e s = s\<lparr>anomalies := []\<rparr> \<and>
         anomalies (detectAnomalies e s) = [] \<and>
         anomalyLayersRef (detectAnomalies e s) = anomalyLayersRef s \<and>
         addAnomalyLayer_calls (detectAnomalies e s) = addAnomalyLayer_calls s"
proof -
  have "detectedAnomalies e drawnArea m = []"
    using assms by (simp add: detectedAnomalies_eq)
  then have "detectAnomalies e s = s\<lparr>anomalies := []\<rparr>"
    using assms by (simp add: detectAnomalies_def Let_def)
  then show ?thesis by simp
qed

text \<open>
  A second run on the square, after a first run that found the three demonstration
  anomalies: the anomalies become empty, the two layers of the first run stay stored, and
  the registry still has the two calls of the first run.
\<close>

theorem detectAnomalies_nothing_detected_witness:
  "getDrawnArea (square_env (low_growth\<lparr>area := Fin 0\<rparr>)) = Some (Some (degrees square)) \<and>
   carbonMetrics (square_env (low_growth\<lparr>area := Fin 0\<rparr>)) = Some (low_growth\<lparr>area := Fin 0\<rparr>) \<and>
   \<not> Fin 20 < calculateForestGrowthPercentage (Some (low_growth\<lparr>area := Fin 0\<rparr>)) \<and>
   \<not> truthy (area (low_growth\<lparr>area := Fin 0\<rparr>)) \<and>
   map id_i (anomalies (detectAnomalies (square_env low_growth) initial)) = [2, 3, 4] \<and>
   anomalies (detectAnomalies (square_env (low_growth\<lparr>area := Fin 0\<rparr>))
     (detectAnomalies (square_env low_growth) initial)) = [] \<and>
   map layer_id (anomalyLayersRef (detectAnomalies (square_env (low_growth\<lparr>area := Fin 0\<rparr>))
     (detectAnomalies (square_env low_growth) initial))) = [''anomaly-areas'', ''anomaly-points''] \<and>
   length (addAnomalyLayer_calls (detectAnomalies (square_env (low_growth\<lparr>area := Fin 0\<rparr>))
     (detectAnomalies (square_env low_growth) initial))) = 2"
proof -
  let ?m = "low_growth\<lparr>area := Fin 0\<rparr>"
  let ?e = "square_env ?m"
  let ?s = "detectAnomalies (square_env low_growth) initial"
  have h1: "getDrawnArea ?e = Some (Some (degrees square))" by (simp add: square_env_def)
  have h2: "carbonMetrics ?e = Some ?m" by (simp add: square_env_def)
  have h3: "\<not> Fin 20 < calculateForestGrowthPercentage (Some ?m)"
    by (simp add: calculateForestGrowthPercentage_def low_growth_def strict_eq_def)
  have h4: "\<not> truthy (area ?m)" by (simp add: truthy_def)
  have g1: "getDrawnArea (square_env low_growth) = Some (Some (degrees square))"
    by (simp add: square_env_def)
  have g2: "carbonMetrics (square_env low_growth) = Some low_growth"
    by (simp add: square_env_def)
  have t: "truthy (area low_growth)" by (simp add: low_growth_def truthy_def)
  have D: "detectedAnomalies (square_env low_growth) (degrees square) low_growth =
      [boundaryAnomaly (getRandomPointInPolygon eighths 0 (degrees square)),
       lulcAnomaly (getRandomPointInPolygon eighths 2 (degrees square)),
       deforestationAnomaly (getRandomPointInPolygon eighths 4 (degrees square))]"
    by (simp add: detectedAnomalies_eq g2 pct_low_growth t) (simp add: square_env_def)
  have before: "map id_i (anomalies ?s) = [2, 3, 4] \<and>
      map layer_id (anomalyLayersRef ?s) = [''anomaly-areas'', ''anomaly-points''] \<and>
      length (addAnomalyLayer_calls ?s) = 2"
    by (simp add: detectAnomalies_def g1 g2 D Let_def initial_def anomalyAreasLayer_def
        anomalyPointsLayer_def) (simp add: square_env_def)
  from detectAnomalies_nothing_detected [OF h1 h2 h3 h4, of ?s] before h1 h2 h3 h4
  show ?thesis by simp
qed

section \<open>The area overlay (claim C6)\<close>




section \<open>Facts about the random anomalies\<close>

lemma draw_val_strides [simp]: "draw_val (strides k) = real ((7 * k) mod 16) / 16"
  by (simp add: strides_def Draw_inverse)

lemma loop_eq:
  "generateAnomaliesAroundPoint_loop r center count i acc =
     acc @ map (pushed r center) [i..<nat count]"
proof (induction r center count i acc rule: generateAnomaliesAroundPoint_loop.induct)
  case (1 r center count i acc)
  show ?case
  proof (cases "int i < count")
    case True
    then have "i < nat count" by simp
    then have "[i..<nat count] = i # [i + 1..<nat count]" by (simp add: upt_conv_Cons)
    with True 1 show ?thesis
      by (subst generateAnomaliesAroundPoint_loop.simps) simp
  next
    case False
    then have "nat count \<le> i" by simp
    with False show ?thesis
      by (subst generateAnomaliesAroundPoint_loop.simps) simp
  qed
qed

lemma generateAnomaliesAroundPoint_eq:
  "generateAnomaliesAroundPoint r center count = map (pushed r center) [0..<nat count]"
  by (simp add: generateAnomaliesAroundPoint_def loop_eq)

lemma index_in_range:
  assumes "0 < n"
  shows "nat \<lfloor>draw_val d * real n\<rfloor> < n"
proof -
  have "0 \<le> draw_val d" "draw_val d < 1" using draw_val_bounds by simp_all
  then have "draw_val d * real n < real n" using assms by simp
  then have "\<lfloor>draw_val d * real n\<rfloor> < int n" by (simp add: floor_less_iff mult.commute)
  then show ?thesis using assms by simp
qed

lemma typeIndex_in_range:
  "nat \<lfloor>draw_val d * real (length anomalyTypes)\<rfloor> < length anomalyTypes"
  by (rule index_in_range) (simp add: anomalyTypes_def)

lemma severityIndex_in_range:
  "nat \<lfloor>draw_val d * real (length severityLevels)\<rfloor> < length severityLevels"
  by (rule index_in_range) (simp add: severityLevels_def)

lemma generateDummyAnomalies_default:
  assumes "centerPolygon = None \<or> (\<exists>p. centerPolygon = Some p \<and> length p < 3)"
  shows "generateDummyAnomalies r centerPolygon count_arg =
     generateAnomaliesAroundPoint r (Fin 101.4383, Fin 0.5104)
       (case count_arg of None \<Rightarrow> 5 | Some c \<Rightarrow> c)"
  using assms by (auto simp: generateDummyAnomalies_def Let_def)





lemma radius_pushed: "radius (pushed r center i) = Some (radiusMap (severity_p (pushed r center i)))"
  by (simp add: pushed_def Let_def)

lemma severity_pushed:
  "severity_p (pushed r center i) = severityLevels ! nat \<lfloor>draw_val (r (4 * i + 3)) * 10\<rfloor>"
  by (simp add: pushed_def Let_def) (simp add: severityLevels_def)

lemma generateDummyAnomalies_pushed:
  "\<exists>center n. generateDummyAnomalies r centerPolygon count_arg = map (pushed r center) [0..<n]"
  by (cases centerPolygon; cases "length (the centerPolygon) < 3")
     (auto simp: generateDummyAnomalies_def Let_def generateAnomaliesAroundPoint_eq)

lemma upt_3: "[0..<3] = [0, 1, 2]"
  by (simp add: upt_rec)

lemma severities_strides:
  "map severity_p (generateDummyAnomalies strides None (Some 3)) = [Medium, High, Low]"
  by (simp add: generateDummyAnomalies_default generateAnomaliesAroundPoint_eq upt_3
      severity_pushed) (simp add: severityLevels_def)

lemma severityLevels_at:
  assumes "k < 10"
  shows "(severityLevels ! k = High) = (k < 2) \<and>
         (severityLevels ! k = Medium) = (2 \<le> k \<and> k < 7) \<and>
         (severityLevels ! k = Low) = (7 \<le> k)"
proof -
  from assms have "k = 0 \<or> k = 1 \<or> k = 2 \<or> k = 3 \<or> k = 4 \<or> k = 5 \<or> k = 6 \<or> k = 7 \<or> k = 8 \<or> k = 9"
    by arith
  then show ?thesis
    by (elim disjE) (simp_all add: severityLevels_def)
qed

lemma tenths:
  fixes d :: real
  assumes "0 \<le> d"
  shows "(nat \<lfloor>d * 10\<rfloor> < 2) = (d < 2 / 10)"
    and "(2 \<le> nat \<lfloor>d * 10\<rfloor>) = (2 / 10 \<le> d)"
    and "(nat \<lfloor>d * 10\<rfloor> < 7) = (d < 7 / 10)"
    and "(7 \<le> nat \<lfloor>d * 10\<rfloor>) = (7 / 10 \<le> d)"
proof -
  have nn: "0 \<le> \<lfloor>d * 10\<rfloor>" using assms by simp
  have "(nat \<lfloor>d * 10\<rfloor> < 2) = (\<lfloor>d * 10\<rfloor> < 2)" using nn by linarith
  also have "\<dots> = (d < 2 / 10)" by (simp add: floor_less_iff mult.commute)
  finally show "(nat \<lfloor>d * 10\<rfloor> < 2) = (d < 2 / 10)" .
  have "(2 \<le> nat \<lfloor>d * 10\<rfloor>) = (2 \<le> \<lfloor>d * 10\<rfloor>)" using nn by linarith
  also have "\<dots> = (2 / 10 \<le> d)" by (simp add: le_floor_iff mult.commute)
  finally show "(2 \<le> nat \<lfloor>d * 10\<rfloor>) = (2 / 10 \<le> d)" .
  have "(nat \<lfloor>d * 10\<rfloor> < 7) = (\<lfloor>d * 10\<rfloor> < 7)" using nn by linarith
  also have "\<dots> = (d < 7 / 10)" by (simp add: floor_less_iff mult.commute)
  finally show "(nat \<lfloor>d * 10\<rfloor> < 7) = (d < 7 / 10)" .
  have "(7 \<le> nat \<lfloor>d * 10\<rfloor>) = (7 \<le> \<lfloor>d * 10\<rfloor>)" using nn by linarith
  also have "\<dots> = (7 / 10 \<le> d)" by (simp add: le_floor_iff mult.commute)
  finally show "(7 \<le> nat \<lfloor>d * 10\<rfloor>) = (7 / 10 \<le> d)" .
qed

lemma severity_of_draw:
  "(severityLevels ! nat \<lfloor>draw_val d * 10\<rfloor> = High) = (draw_val d < 2 / 10) \<and>
   (severityLevels ! nat \<lfloor>draw_val d * 10\<rfloor> = Medium) = (2 / 10 \<le> draw_val d \<and> draw_val d < 7 / 10) \<and>
   (severityLevels ! nat \<lfloor>draw_val d * 10\<rfloor> = Low) = (7 / 10 \<le> draw_val d)"
proof -
  have k: "nat \<lfloor>draw_val d * 10\<rfloor> < 10"
    using severityIndex_in_range [of d] by (simp add: severityLevels_def)
  have nn: "0 \<le> draw_val d" using draw_val_bounds by simp
  show ?thesis
    using severityLevels_at [OF k] by (simp only: tenths [OF nn])
qed

section \<open>Count and spread of the random anomalies (claim C2)\<close>



section \<open>The reference point (claim C7)\<close>



section \<open>Radius and severity (claim C8)\<close>

text \<open>
  Claim C8. Every record that \<open>generateDummyAnomalies\<close> returns has the radius that
  \<open>radiusMap\<close> gives for its severity: 300 for high, 200 for medium, 150 for low.
\<close>

theorem radius_from_severity:
  "(\<forall>a \<in> set (generateDummyAnomalies r centerPolygon count_arg).
      radius a = Some (radiusMap (severity_p a))) \<and>
   radiusMap High = Fin 300 \<and> radiusMap Medium = Fin 200 \<and> radiusMap Low = Fin 150"
proof -
  obtain center n where
    G: "generateDummyAnomalies r centerPolygon count_arg = map (pushed r center) [0..<n]"
    using generateDummyAnomalies_pushed by blast
  have "\<forall>a \<in> set (generateDummyAnomalies r centerPolygon count_arg).
      radius a = Some (radiusMap (severity_p a))"
    unfolding G by (auto simp: radius_pushed)
  then show ?thesis by simp
qed

text \<open>Three records with the severities medium, high and low and their radii.\<close>

theorem radius_from_severity_witness:
  "map (\<lambda>a. (severity_p a, radius a)) (generateDummyAnomalies strides None (Some 3)) =
     [(Medium, Some (Fin 200)), (High, Some (Fin 300)), (Low, Some (Fin 150))]"
proof -
  let ?G = "generateDummyAnomalies strides None (Some 3)"
  from radius_from_severity [of strides None "Some 3"]
  have "map (\<lambda>a. (severity_p a, radius a)) ?G =
      map (\<lambda>a. (severity_p a, Some (radiusMap (severity_p a)))) ?G"
    by simp
  also have "\<dots> = map (\<lambda>s. (s, Some (radiusMap s))) (map severity_p ?G)"
    by (simp add: comp_def)
  also have "\<dots> = [(Medium, Some (Fin 200)), (High, Some (Fin 300)), (Low, Some (Fin 150))]"
    unfolding severities_strides by simp
  finally show ?thesis .
qed

section \<open>The weighted draw of the severity (claim C9)\<close>

text \<open>
  Claim C9. \<open>severityLevels\<close> has ten slots: two high, five medium and three low. The
  severity of the \<open>i\<close>-th record is the slot at \<open>Math.floor\<close> of ten times its fourth
  draw, an index below ten, so it is one of high, medium and low; it is high exactly
  when the draw is below 0.2, medium when the draw is from 0.2 to below 0.7, and low
  when it is 0.7 or more: intervals of length 0.2, 0.5 and 0.3, which are the
  probabilities of the three severities when the draw is uniform on [0, 1).
\<close>

theorem severity_weighted_draw:
  "length severityLevels = 10 \<and>
   length (filter (\<lambda>s. s = High) severityLevels) = 2 \<and>
   length (filter (\<lambda>s. s = Medium) severityLevels) = 5 \<and>
   length (filter (\<lambda>s. s = Low) severityLevels) = 3 \<and>
   (\<forall>i < length (generateDummyAnomalies r centerPolygon count_arg).
      nat \<lfloor>draw_val (r (4 * i + 3)) * 10\<rfloor> < 10 \<and>
      severity_p (generateDummyAnomalies r centerPolygon count_arg ! i) =
        severityLevels ! nat \<lfloor>draw_val (r (4 * i + 3)) * 10\<rfloor> \<and>
      severity_p (generateDummyAnomalies r centerPolygon count_arg ! i) \<in> {High, Medium, Low} \<and>
      (severity_p (generateDummyAnomalies r centerPolygon count_arg ! i) = High) =
        (draw_val (r (4 * i + 3)) < 2 / 10) \<and>
      (severity_p (generateDummyAnomalies r centerPolygon count_arg ! i) = Medium) =
        (2 / 10 \<le> draw_val (r (4 * i + 3)) \<and> draw_val (r (4 * i + 3)) < 7 / 10) \<and>
      (severity_p (generateDummyAnomalies r centerPolygon count_arg ! i) = Low) =
        (7 / 10 \<le> draw_val (r (4 * i + 3))))"
proof -
  obtain center n where
    G: "generateDummyAnomalies r centerPolygon count_arg = map (pushed r center) [0..<n]"
    using generateDummyAnomalies_pushed by blast
  have slots: "length severityLevels = 10 \<and>
   length (filter (\<lambda>s. s = High) severityLevels) = 2 \<and>
   length (filter (\<lambda>s. s = Medium) severityLevels) = 5 \<and>
   length (filter (\<lambda>s. s = Low) severityLevels) = 3"
    by (simp add: severityLevels_def)
  have each: "\<forall>i < length (generateDummyAnomalies r centerPolygon count_arg).
      nat \<lfloor>draw_val (r (4 * i + 3)) * 10\<rfloor> < 10 \<and>
      severity_p (generateDummyAnomalies r centerPolygon count_arg ! i) =
        severityLevels ! nat \<lfloor>draw_val (r (4 * i + 3)) * 10\<rfloor> \<and>
      severity_p (generateDummyAnomalies r centerPolygon count_arg ! i) \<in> {High, Medium, Low} \<and>
      (severity_p (generateDummyAnomalies r centerPolygon count_arg ! i) = High) =
        (draw_val (r (4 * i + 3)) < 2 / 10) \<and>
      (severity_p (generateDummyAnomalies r centerPolygon count_arg ! i) = Medium) =
        (2 / 10 \<le> draw_val (r (4 * i + 3)) \<and> draw_val (r (4 * i + 3)) < 7 / 10) \<and>
      (severity_p (generateDummyAnomalies r centerPolygon count_arg ! i) = Low) =
        (7 / 10 \<le> draw_val (r (4 * i + 3)))"
  proof (intro allI impI)
    fix i assume "i < length (generateDummyAnomalies r centerPolygon count_arg)"
    then have i: "i < n" by (simp add: G)
    have k: "nat \<lfloor>draw_val (r (4 * i + 3)) * 10\<rfloor> < 10"
      using severityIndex_in_range [of "r (4 * i + 3)"] by (simp add: severityLevels_def)
    have s: "severity_p (generateDummyAnomalies r centerPolygon count_arg ! i) =
        severityLevels ! nat \<lfloor>draw_val (r (4 * i + 3)) * 10\<rfloor>"
      using i by (simp add: G severity_pushed)
    have m: "severity_p (generateDummyAnomalies r centerPolygon count_arg ! i) \<in> {High, Medium, Low}"
      by (cases "severity_p (generateDummyAnomalies r centerPolygon count_arg ! i)") simp_all
    from k s m severity_of_draw [of "r (4 * i + 3)"]
    show "nat \<lfloor>draw_val (r (4 * i + 3)) * 10\<rfloor> < 10 \<and>
      severity_p (generateDummyAnomalies r centerPolygon count_arg ! i) =
        severityLevels ! nat \<lfloor>draw_val (r (4 * i + 3)) * 10\<rfloor> \<and>
      severity_p (generateDummyAnomalies r centerPolygon count_arg ! i) \<in> {High, Medium, Low} \<and>
      (severity_p (generateDummyAnomalies r centerPolygon count_arg ! i) = High) =
        (draw_val (r (4 * i + 3)) < 2 / 10) \<and>
      (severity_p (generateDummyAnomalies r centerPolygon count_arg ! i) = Medium) =
        (2 / 10 \<le> draw_val (r (4 * i + 3)) \<and> draw_val (r (4 * i + 3)) < 7 / 10) \<and>
      (severity_p (generateDummyAnomalies r centerPolygon count_arg ! i) = Low) =
        (7 / 10 \<le> draw_val (r (4 * i + 3)))"
      by (simp only:)
  qed
  from slots each show ?thesis by (intro conjI) blast+
qed

text \<open>
  The fourth draws of three records are 5/16, 1/16 and 13/16: medium, high and low.
\<close>

theorem severity_weighted_draw_witness:
  "length (generateDummyAnomalies strides None (Some 3)) = 3 \<and>
   draw_val (strides 3) = 5 / 16 \<and> draw_val (strides 7) = 1 / 16 \<and>
   draw_val (strides 11) = 13 / 16 \<and>
   severity_p (generateDummyAnomalies strides None (Some 3) ! 0) = Medium \<and>
   severity_p (generateDummyAnomalies strides None (Some 3) ! 1) = High \<and>
   severity_p (generateDummyAnomalies strides None (Some 3) ! 2) = Low"
proof -
  let ?G = "generateDummyAnomalies strides None (Some 3)"
  have len: "length ?G = 3"
    by (simp add: generateDummyAnomalies_default generateAnomaliesAroundPoint_eq)
  have d: "draw_val (strides 3) = 5 / 16" "draw_val (strides 7) = 1 / 16"
    "draw_val (strides 11) = 13 / 16"
    by simp_all
  note T = severity_weighted_draw [of strides None "Some 3", THEN conjunct2, THEN conjunct2,
      THEN conjunct2, THEN conjunct2, rule_format]
  have i0: "0 < length ?G" and i1: "1 < length ?G" and i2: "2 < length ?G"
    by (simp_all add: len)
  from T [OF i0] have "(severity_p (?G ! 0) = Medium) =
      (2 / 10 \<le> draw_val (strides (4 * 0 + 3)) \<and> draw_val (strides (4 * 0 + 3)) < 7 / 10)"
    by blast
  then have m: "severity_p (?G ! 0) = Medium" by simp
  from T [OF i1] have "(severity_p (?G ! 1) = High) = (draw_val (strides (4 * 1 + 3)) < 2 / 10)"
    by blast
  then have h: "severity_p (?G ! 1) = High" by simp
  from T [OF i2] have "(severity_p (?G ! 2) = Low) = (7 / 10 \<le> draw_val (strides (4 * 2 + 3)))"
    by blast
  then have l: "severity_p (?G ! 2) = Low" by simp
  from len d m h l show ?thesis by (intro conjI)
qed

end
